theory Spec2Isabelle
  imports
    Main
    "HOL-Library.Char_ord"
    "HOL-Library.List_Lexorder"
    "HOL-Library.Multiset"
begin

section \<open>Python values shared by the three modules\<close>

text \<open>
  The modules are Python. Exceptions and \<open>module.fail_json\<close> (which ends the run with
  the given message) are values of \<open>error\<close>; a function that can raise returns
  \<open>error + 'a\<close>, with \<open>Inl\<close> the error.
\<close>

datatype error =
    KeyError string
  | TypeError
  | FailJson string

text \<open>
  A VLAN id of the desired list is declared \<open>type='int'\<close> in the argument spec, and the
  observed ids are strings cut out of the device's text. The conversion between the
  argument spec and the desired list (\<open>map_params_to_obj\<close> of \<open>module_utils\<close>) is not
  part of the sources, so a desired id is either Python value; \<open>==\<close> on them is
  Python's: an int never equals a str.
\<close>

datatype pyval = PInt int | PStr string

definition digit_char :: "nat \<Rightarrow> char" where
  "digit_char n = ''0123456789'' ! n"

fun str_nat :: "nat \<Rightarrow> string" where
  "str_nat n = (if n < 10 then [digit_char n] else str_nat (n div 10) @ [digit_char (n mod 10)])"

declare str_nat.simps [simp del]

definition str_int :: "int \<Rightarrow> string" where
  "str_int i = (if i < 0 then CHR ''-'' # str_nat (nat (- i)) else str_nat (nat i))"

text \<open>\<open>str(v)\<close>, which is also what \<open>'{0}'.format(v)\<close> prints.\<close>

fun py_str :: "pyval \<Rightarrow> string" where
  "py_str (PInt i) = str_int i"
| "py_str (PStr s) = s"

text \<open>Truthiness of an optional string: \<open>None\<close> and \<open>''\<close> are false.\<close>

fun truthy :: "string option \<Rightarrow> bool" where
  "truthy None = False"
| "truthy (Some s) = (s \<noteq> [])"

text \<open>Truthiness of an optional bool (\<open>type='bool'\<close>, default \<open>None\<close>).\<close>

fun truthy_bool :: "bool option \<Rightarrow> bool" where
  "truthy_bool None = False"
| "truthy_bool (Some b) = b"

text \<open>
  A Python dict in insertion order: an association list with distinct keys.
  \<open>d[k] = v\<close> keeps the place of a key that is there and appends a new one.
\<close>

fun dict_set :: "'k \<Rightarrow> 'v \<Rightarrow> ('k \<times> 'v) list \<Rightarrow> ('k \<times> 'v) list" where
  "dict_set k v [] = [(k, v)]"
| "dict_set k v ((k', v') # d) = (if k' = k then (k, v) # d else (k', v') # dict_set k v d)"

text \<open>\<open>d[k]\<close>, which raises \<open>KeyError\<close> on a missing key.\<close>

definition dict_get :: "(string \<times> 'v) list \<Rightarrow> string \<Rightarrow> error + 'v" where
  "dict_get d k = (case map_of d k of None \<Rightarrow> Inl (KeyError k) | Some v \<Rightarrow> Inr v)"

section \<open>edgeswitch\_vlan: the VLAN database phase\<close>

record vlan_have =
  vh_vlan_id :: string
  vh_name :: string

record vlan_want =
  vw_vlan_id :: pyval
  vw_name :: "string option"
  vw_state :: string
  vw_auto_tag :: "bool option"
  vw_auto_untag :: "bool option"
  vw_auto_exclude :: "bool option"
  vw_tagged_interfaces :: "string list option"
  vw_untagged_interfaces :: "string list option"
  vw_excluded_interfaces :: "string list option"

text \<open>
  \<open>search_obj_in_list(vlan_id, lst)\<close>: the first \<open>o\<close> of \<open>lst\<close> with
  \<open>o['vlan_id'] == str(vlan_id)\<close>. It is called on the observed list with a desired id
  and on the desired list with an observed id; \<open>vid\<close> reads \<open>o['vlan_id']\<close>.
\<close>

definition search_obj_in_list :: "pyval \<Rightarrow> ('a \<Rightarrow> pyval) \<Rightarrow> 'a list \<Rightarrow> 'a option" where
  "search_obj_in_list vlan_id vid lst = find (\<lambda>obj. vid obj = PStr (py_str vlan_id)) lst"

definition have_id :: "vlan_have \<Rightarrow> pyval" where
  "have_id h = PStr (vh_vlan_id h)"

definition vlan_name_cmd :: "pyval \<Rightarrow> string \<Rightarrow> string" where
  "vlan_name_cmd vlan_id name = ''vlan name '' @ py_str vlan_id @ '' '' @ [CHR 0x22] @ name @ [CHR 0x22]"

text \<open>The body of the loop over \<open>want\<close> (lines 150-169): the commands one entry appends.\<close>

definition want_vlan_commands :: "vlan_have list \<Rightarrow> vlan_want \<Rightarrow> string list" where
  "want_vlan_commands have w =
     (let vlan_id = vw_vlan_id w; name = vw_name w; state = vw_state w;
          obj_in_have = search_obj_in_list vlan_id have_id have
      in if state = ''absent'' then
           (if obj_in_have \<noteq> None then [''no vlan '' @ py_str vlan_id] else [])
         else if state = ''present'' then
           (case obj_in_have of
              None \<Rightarrow> [''vlan '' @ py_str vlan_id]
                       @ (if truthy name then [vlan_name_cmd vlan_id (the name)] else [])
            | Some h \<Rightarrow>
                (if truthy name then
                   (if name \<noteq> Some (vh_name h) then [vlan_name_cmd vlan_id (the name)] else [])
                 else []))
         else [])"

text \<open>The body of the purge loop over \<open>have\<close> (lines 172-176).\<close>

definition purge_vlan_commands :: "vlan_want list \<Rightarrow> vlan_have \<Rightarrow> string list" where
  "purge_vlan_commands want h =
     (let obj_in_want = search_obj_in_list (PStr (vh_vlan_id h)) vw_vlan_id want
      in if obj_in_want = None \<and> vh_vlan_id h \<noteq> ''1'' then [''no vlan '' @ vh_vlan_id h] else [])"

text \<open>\<open>commands\<close> as it stands at line 178, before the prologue and epilogue.\<close>

definition vlan_phase_commands :: "vlan_want list \<Rightarrow> vlan_have list \<Rightarrow> bool \<Rightarrow> string list" where
  "vlan_phase_commands want have purge =
     concat (map (want_vlan_commands have) want)
     @ (if purge then concat (map (purge_vlan_commands want) have) else [])"

definition map_vlans_to_commands :: "vlan_want list \<times> vlan_have list \<Rightarrow> bool \<Rightarrow> string list" where
  "map_vlans_to_commands updates purge =
     (let (want, have) = updates;
          commands = vlan_phase_commands want have purge
      in if commands \<noteq> [] then ''vlan database'' # commands @ [''exit''] else [])"

section \<open>Interface tokens: the regular expressions of the modules\<close>

text \<open>
  \<open>\d\<close> is an ASCII digit. In each pattern a group \<open>(\d+)\<close> is followed by a character
  that is not a digit (or by the end of the pattern), so the greedy group is the longest
  run of digits at its place and backtracking never changes a match: \<open>span_digits\<close>
  cuts that run off.
\<close>

definition is_digit :: "char \<Rightarrow> bool" where
  "is_digit c = (c \<in> set ''0123456789'')"

definition span_digits :: "string \<Rightarrow> string \<times> string" where
  "span_digits s = (takeWhile is_digit s, dropWhile is_digit s)"

text \<open>A string that one group \<open>(\d+)\<close> matches in full: a non-empty run of digits.\<close>

definition is_digits :: "string \<Rightarrow> bool" where
  "is_digits s = (s \<noteq> [] \<and> (\<forall>c\<in>set s. is_digit c))"

fun expect :: "char \<Rightarrow> string \<Rightarrow> string option" where
  "expect c [] = None"
| "expect c (x # xs) = (if x = c then Some xs else None)"

text \<open>A group \<open>(\d+)\<close> and the character \<open>c\<close> after it: the group and the rest.\<close>

definition digits_then :: "char \<Rightarrow> string \<Rightarrow> (string \<times> string) option" where
  "digits_then c s =
     (let (g, r) = span_digits s in
      if g = [] then None
      else (case expect c r of None \<Rightarrow> None | Some r' \<Rightarrow> Some (g, r')))"

text \<open>\<open>(\d+)\/(\d+)-(\d+)\/(\d+)\<close> matched at the start of \<open>s\<close>: the four groups.\<close>

definition match_range :: "string \<Rightarrow> (string \<times> string \<times> string \<times> string) option" where
  "match_range s =
     (case digits_then (CHR ''/'') s of
        None \<Rightarrow> None
      | Some (g1, r1) \<Rightarrow>
          (case digits_then (CHR ''-'') r1 of
             None \<Rightarrow> None
           | Some (g2, r2) \<Rightarrow>
               (case digits_then (CHR ''/'') r2 of
                  None \<Rightarrow> None
                | Some (g3, r3) \<Rightarrow>
                    (let g4 = fst (span_digits r3) in
                     if g4 = [] then None else Some (g1, g2, g3, g4)))))"

text \<open>\<open>re.search\<close>: the match at the leftmost position that has one.\<close>

fun search_range :: "string \<Rightarrow> (string \<times> string \<times> string \<times> string) option" where
  "search_range [] = None"
| "search_range (c # cs) =
     (case match_range (c # cs) of Some m \<Rightarrow> Some m | None \<Rightarrow> search_range cs)"

text \<open>\<open>(\d+)\/(\d+)\<close>: only whether it matches somewhere is used.\<close>

definition match_single :: "string \<Rightarrow> bool" where
  "match_single s =
     (case digits_then (CHR ''/'') s of
        None \<Rightarrow> False
      | Some (g1, r1) \<Rightarrow> fst (span_digits r1) \<noteq> [])"

fun search_single :: "string \<Rightarrow> bool" where
  "search_single [] = False"
| "search_single (c # cs) = (match_single (c # cs) \<or> search_single cs)"

text \<open>\<open>int(s)\<close> on a run of digits.\<close>

definition digit_val :: "char \<Rightarrow> nat" where
  "digit_val c = of_char c - 48"

definition int_of_digits :: "string \<Rightarrow> nat" where
  "int_of_digits s = foldl (\<lambda>a c. 10 * a + digit_val c) 0 s"

section \<open>edgeswitch\_vlan: interface membership\<close>

record port =
  pvid_mode :: string
  untagged_vlans :: "string list"
  tagged_vlans :: "string list"
  forbidden_vlans :: "string list"

text \<open>The three literals \<open>'tag'\<close>, \<open>'untag'\<close>, \<open>'exclude'\<close> stored in \<open>interfaces\<close>.\<close>

datatype action = Tag | Untag | Exclude

text \<open>\<open>vlan_id in lst\<close> for a list of strings.\<close>

fun py_in :: "pyval \<Rightarrow> string list \<Rightarrow> bool" where
  "py_in (PStr s) lst = (s \<in> set lst)"
| "py_in (PInt i) lst = False"

text \<open>A step of \<open>set_interfaces\<close>' loop (lines 189-194), for one token \<open>i\<close>.\<close>

definition set_interface_token ::
  "action \<Rightarrow> string \<Rightarrow> (string \<times> action) list \<Rightarrow> (string \<times> action) list" where
  "set_interface_token act i interfaces =
     (case search_range i of
        Some (g1, g2, g3, g4) \<Rightarrow>
          fold (\<lambda>x d. dict_set (g1 @ ''/'' @ str_nat x) act d)
               [int_of_digits g2 ..< int_of_digits g4 + 1] interfaces
      | None \<Rightarrow> dict_set i act interfaces)"

definition set_interfaces ::
  "string list option \<Rightarrow> (string \<times> action) list \<Rightarrow> action \<Rightarrow> (string \<times> action) list" where
  "set_interfaces interfaces_param interfaces act =
     (case interfaces_param of
        None \<Rightarrow> interfaces
      | Some toks \<Rightarrow> fold (set_interface_token act) toks interfaces)"

text \<open>The loop over \<open>ports.items()\<close> (lines 215-222).\<close>

definition auto_step ::
  "vlan_want \<Rightarrow> string \<times> port \<Rightarrow> (string \<times> action) list \<Rightarrow> (string \<times> action) list" where
  "auto_step w kv interfaces =
     (let (key, val) = kv in
      if truthy_bool (vw_auto_tag w) then dict_set key Tag interfaces
      else if truthy_bool (vw_auto_exclude w) then
        (if \<not> py_in (vw_vlan_id w) (forbidden_vlans val) then dict_set key Exclude interfaces
         else interfaces)
      else if truthy_bool (vw_auto_untag w) then dict_set key Untag interfaces
      else interfaces)"

text \<open>\<open>interfaces\<close> as it stands at line 228, for one desired entry.\<close>

definition want_interfaces :: "vlan_want \<Rightarrow> (string \<times> port) list \<Rightarrow> (string \<times> action) list" where
  "want_interfaces w ports =
     set_interfaces (vw_excluded_interfaces w)
       (set_interfaces (vw_untagged_interfaces w)
          (set_interfaces (vw_tagged_interfaces w) (fold (auto_step w) ports []) Tag)
          Untag)
       Exclude"

text \<open>The commands of lines 236-247 for one interface and one VLAN.\<close>

definition membership_commands :: "pyval \<Rightarrow> action \<Rightarrow> port \<Rightarrow> string list" where
  "membership_commands vlan_id t port =
     (case t of
        Exclude \<Rightarrow>
          (if \<not> py_in vlan_id (forbidden_vlans port)
           then [''vlan participation exclude '' @ py_str vlan_id,
                 ''no vlan tagging '' @ py_str vlan_id]
           else [])
      | Untag \<Rightarrow>
          (if \<not> py_in vlan_id (untagged_vlans port) \<or> vlan_id \<noteq> PStr (pvid_mode port)
           then [''vlan pvid '' @ py_str vlan_id,
                 ''vlan participation include '' @ py_str vlan_id]
           else [])
      | Tag \<Rightarrow>
          (if \<not> py_in vlan_id (tagged_vlans port)
           then [''vlan participation include '' @ py_str vlan_id,
                 ''vlan tagging '' @ py_str vlan_id]
           else []))"

text \<open>\<open>cmds.append\<close> on the list stored under \<open>i\<close>.\<close>

definition dict_extend :: "string \<Rightarrow> string list \<Rightarrow> (string \<times> string list) list \<Rightarrow> (string \<times> string list) list" where
  "dict_extend i cs d = map (\<lambda>(k, v). if k = i then (k, v @ cs) else (k, v)) d"

text \<open>
  The body of the loop over \<open>interfaces.items()\<close> (lines 229-247). The entry of \<open>i\<close> in
  \<open>interfaces_cmds\<close> is created first; \<open>ports[i]\<close> then raises \<open>KeyError\<close> for an
  interface the device did not list, and nothing catches it.
\<close>

definition interface_step ::
  "(string \<times> port) list \<Rightarrow> pyval \<Rightarrow> string \<times> action \<Rightarrow> (string \<times> string list) list
   \<Rightarrow> error + (string \<times> string list) list" where
  "interface_step ports vlan_id it interfaces_cmds =
     (let (i, t) = it;
          d = (case map_of interfaces_cmds i of
                 None \<Rightarrow> interfaces_cmds @ [(i, [])]
               | Some cmds \<Rightarrow> interfaces_cmds)
      in case dict_get ports i of
           Inl e \<Rightarrow> Inl e
         | Inr port \<Rightarrow> Inr (dict_extend i (membership_commands vlan_id t port) d))"

text \<open>A loop whose body can raise: the first error ends it.\<close>

fun fold_err :: "('a \<Rightarrow> 's \<Rightarrow> error + 's) \<Rightarrow> 'a list \<Rightarrow> 's \<Rightarrow> error + 's" where
  "fold_err f [] s = Inr s"
| "fold_err f (x # xs) s = (case f x s of Inl e \<Rightarrow> Inl e | Inr s' \<Rightarrow> fold_err f xs s')"

text \<open>The body of the loop over \<open>want\<close> (lines 201-247).\<close>

definition want_step ::
  "(string \<times> port) list \<Rightarrow> vlan_want \<Rightarrow> (string \<times> string list) list
   \<Rightarrow> error + (string \<times> string list) list" where
  "want_step ports w interfaces_cmds =
     (if vw_state w \<noteq> ''present'' then Inr interfaces_cmds
      else fold_err (interface_step ports (vw_vlan_id w)) (want_interfaces w ports) interfaces_cmds)"

text \<open>
  The last loop (lines 249-252): \<open>sorted(interfaces_cmds.items())\<close> orders the pairs by
  their key, a Python string, so character by character; the keys of a dict are distinct,
  so the second component never decides.
\<close>

definition interface_blocks :: "(string \<times> string list) list \<Rightarrow> string list" where
  "interface_blocks interfaces_cmds =
     concat (map (\<lambda>(i, cmds). if length cmds > 0 then (''interface '' @ i) # cmds else [])
                 (sort_key fst interfaces_cmds))"

definition map_interfaces_to_commands ::
  "vlan_want list \<Rightarrow> (string \<times> port) list \<Rightarrow> error + string list" where
  "map_interfaces_to_commands want ports =
     (case fold_err (want_step ports) want [] of
        Inl e \<Rightarrow> Inl e
      | Inr interfaces_cmds \<Rightarrow> Inr (interface_blocks interfaces_cmds))"

section \<open>edgeswitch\_vlan: validation and the run\<close>

text \<open>The body of \<open>check_parmams_interface\<close>' loop (lines 303-310), for one token.\<close>

definition check_token :: "string \<Rightarrow> error + unit" where
  "check_token i =
     (case search_range i of
        Some (g1, g2, g3, g4) \<Rightarrow>
          (if g1 \<noteq> g3
           then Inl (FailJson (''interface range must be withing same group: '' @ i))
           else Inr ())
      | None \<Rightarrow>
          (if \<not> search_single i \<and> i \<noteq> ''all''
           then Inl (FailJson (''wrong interface format: '' @ i))
           else Inr ()))"

definition check_parmams_interface :: "string list option \<Rightarrow> error + unit" where
  "check_parmams_interface interfaces =
     (case interfaces of
        None \<Rightarrow> Inr ()
      | Some toks \<Rightarrow> fold_err (\<lambda>i u. check_token i) toks ())"

definition mutually_exclusive_msg :: string where
  "mutually_exclusive_msg = ''parameters are mutually exclusive: auto_tag, auto_untag, auto_exclude''"

text \<open>The body of \<open>check_params\<close>' loop (lines 313-333), for one desired entry.\<close>

definition check_want :: "vlan_want \<Rightarrow> error + unit" where
  "check_want w =
     (let c = (0::nat);
          c = (if truthy_bool (vw_auto_tag w) then c + 1 else c);
          c = (if truthy_bool (vw_auto_untag w) then c + 1 else c);
          c = (if truthy_bool (vw_auto_exclude w) then c + 1 else c)
      in if c > 1 then Inl (FailJson mutually_exclusive_msg)
         else (case check_parmams_interface (vw_tagged_interfaces w) of
                 Inl e \<Rightarrow> Inl e
               | Inr u \<Rightarrow>
                   (case check_parmams_interface (vw_untagged_interfaces w) of
                      Inl e \<Rightarrow> Inl e
                    | Inr u \<Rightarrow> check_parmams_interface (vw_excluded_interfaces w))))"

definition check_params :: "vlan_want list \<Rightarrow> error + unit" where
  "check_params want = fold_err (\<lambda>w u. check_want w) want ()"

text \<open>What a run hands back through \<open>exit_json\<close>: \<open>result['changed']\<close>, \<open>result['commands']\<close>.\<close>

record module_result =
  res_changed :: bool
  res_commands :: "string list"

text \<open>
  A run: \<open>sent\<close> is every configuration command given to the device (\<open>run_commands\<close>
  with the VLAN database commands, \<open>load_config\<close>), in order; \<open>outcome\<close> is the result,
  or the error that ended the run.
\<close>

record 'r run =
  sent :: "string list"
  outcome :: "error + 'r"

text \<open>
  \<open>main\<close> of edgeswitch\_vlan (lines 369-397). \<open>want\<close> is what \<open>map_params_to_obj\<close>
  returned; \<open>have\<close> and \<open>ports\<close> are what the device answered to \<open>show vlan brief\<close> and,
  after the VLAN database commands, to \<open>show interfaces switchport\<close>.
\<close>

definition vlan_main ::
  "vlan_want list \<Rightarrow> vlan_have list \<Rightarrow> (string \<times> port) list \<Rightarrow> bool \<Rightarrow> bool
   \<Rightarrow> module_result run" where
  "vlan_main want have ports purge check_mode =
     (case check_params want of
        Inl e \<Rightarrow> \<lparr>sent = [], outcome = Inl e\<rparr>
      | Inr u \<Rightarrow>
          (let commands1 = map_vlans_to_commands (want, have) purge;
               sent1 = (if commands1 \<noteq> [] \<and> \<not> check_mode then commands1 else [])
           in case map_interfaces_to_commands want ports of
                Inl e \<Rightarrow> \<lparr>sent = sent1, outcome = Inl e\<rparr>
              | Inr commands2 \<Rightarrow>
                  \<lparr>sent = sent1 @ (if commands2 \<noteq> [] \<and> \<not> check_mode then commands2 else []),
                   outcome = Inr \<lparr>res_changed = (commands1 \<noteq> [] \<or> commands2 \<noteq> []),
                                  res_commands = commands1 @ commands2\<rparr>\<rparr>))"

section \<open>edgeswitch\_interface\<close>

record iface_have =
  ih_name :: "string option"
  ih_description :: "string option"
  ih_speed :: "string option"
  ih_mtu :: "string option"
  ih_disable :: bool

text \<open>\<open>iw_disable\<close> is \<open>None\<close> when the entry has no key \<open>'disable'\<close>.\<close>

record iface_want =
  iw_name :: string
  iw_description :: "string option"
  iw_speed :: "string option"
  iw_mtu :: "string option"
  iw_disable :: "bool option"

text \<open>\<open>search_obj_in_list(name, lst)\<close> of edgeswitch\_interface.\<close>

definition iface_search_obj_in_list :: "string \<Rightarrow> iface_have list \<Rightarrow> iface_have option" where
  "iface_search_obj_in_list name lst = find (\<lambda>obj. ih_name obj = Some name) lst"

text \<open>\<open>'{0}'.format(v)\<close> for an optional string.\<close>

fun format_opt :: "string option \<Rightarrow> string" where
  "format_opt None = ''None''"
| "format_opt (Some s) = s"

text \<open>
  Lines 223-242: the sub-commands of one desired entry found on the device.
  \<open>get_running_mtu\<close> asks the device, and is what it answers for an interface name.
\<close>

definition iface_commands ::
  "(string \<Rightarrow> string option) \<Rightarrow> iface_want \<Rightarrow> iface_have \<Rightarrow> string list" where
  "iface_commands get_running_mtu w obj_in_have =
     (let name = iw_name w; speed = iw_speed w; description = iw_description w; mtu = iw_mtu w;
          running_mtu = ih_mtu obj_in_have;
          running_mtu = (if truthy mtu \<and> \<not> truthy running_mtu
                         then get_running_mtu name else running_mtu)
      in (if mtu \<noteq> running_mtu then [''mtu '' @ format_opt mtu] else [])
         @ (if truthy description then
              (if description \<noteq> ih_description obj_in_have
               then [''description '' @ [CHR 0x27] @ the description @ [CHR 0x27]] else [])
            else if truthy (ih_description obj_in_have) then [''no description'']
            else [])
         @ (if truthy speed \<and> speed \<noteq> ih_speed obj_in_have then [''speed '' @ the speed] else [])
         @ (case iw_disable w of
              None \<Rightarrow> []
            | Some d \<Rightarrow>
                (if d \<noteq> ih_disable obj_in_have
                 then (if d then [''shutdown''] else [''no shutdown''])
                 else [])))"

definition not_exist_warning :: "string \<Rightarrow> string" where
  "not_exist_warning name = ''interface '' @ name @ '' does not exist on target''"

text \<open>The body of the loop over \<open>want\<close> (lines 212-246), on \<open>(commands, warnings)\<close>.\<close>

definition iface_step ::
  "(string \<Rightarrow> string option) \<Rightarrow> iface_have list \<Rightarrow> iface_want
   \<Rightarrow> string list \<times> string list \<Rightarrow> string list \<times> string list" where
  "iface_step get_running_mtu have w st =
     (let (commands, warnings) = st in
      case iface_search_obj_in_list (iw_name w) have of
        None \<Rightarrow> (commands, warnings @ [not_exist_warning (iw_name w)])
      | Some obj_in_have \<Rightarrow>
          (let cmds = iface_commands get_running_mtu w obj_in_have
           in if length cmds > 0
              then (commands @ (''interface '' @ iw_name w) # cmds, warnings)
              else (commands, warnings)))"

text \<open>Returns the commands and the list \<open>warnings\<close> as the call leaves it.\<close>

definition map_obj_to_commands ::
  "iface_want list \<times> iface_have list \<Rightarrow> (string \<Rightarrow> string option) \<Rightarrow> string list
   \<Rightarrow> string list \<times> string list" where
  "map_obj_to_commands updates get_running_mtu warnings =
     (let (want, have) = updates
      in fold (iface_step get_running_mtu have) want ([], warnings))"

record iface_result = module_result +
  res_warnings :: "string list"

text \<open>\<open>main\<close> of edgeswitch\_interface (lines 281-291).\<close>

definition iface_main ::
  "iface_want list \<Rightarrow> iface_have list \<Rightarrow> (string \<Rightarrow> string option) \<Rightarrow> bool
   \<Rightarrow> iface_result run" where
  "iface_main want have get_running_mtu check_mode =
     (let (cmds, warns) = map_obj_to_commands (want, have) get_running_mtu []
      in \<lparr>sent = (if cmds \<noteq> [] \<and> \<not> check_mode then cmds else []),
          outcome = Inr \<lparr>res_changed = (cmds \<noteq> []), res_commands = cmds,
                         res_warnings = warns\<rparr>\<rparr>)"

section \<open>edgeswitch\_voice\<close>

record voice_port =
  voice_vlan :: string
  voice_dscp :: string
  lldp :: "string list"

record voice_want =
  vo_vlan_id :: "int option"
  vo_dscp :: "string option"
  vo_interfaces :: "string list option"
  vo_lldp :: "string list option"
  vo_state :: string

text \<open>\<open>str(w['vlan_id'])\<close>.\<close>

fun str_opt_int :: "int option \<Rightarrow> string" where
  "str_opt_int None = ''None''"
| "str_opt_int (Some i) = str_int i"

text \<open>
  \<open>map_to_commands_interface\<close> (lines 93-113). \<open>'voice vlan dscp ' + dscp\<close> raises
  \<open>TypeError\<close> when \<open>dscp\<close> is \<open>None\<close>, and so does the loop over \<open>lldp\<close> when it is.
\<close>

definition map_to_commands_interface ::
  "string \<Rightarrow> string option \<Rightarrow> string list option \<Rightarrow> string \<Rightarrow> voice_port \<Rightarrow> error + string list" where
  "map_to_commands_interface vlan_id dscp lldp_modes state port =
     (if state = ''present'' then
        (let c1 = (if voice_vlan port \<noteq> vlan_id then [''voice vlan {}'' @ vlan_id] else [])
         in case (if Some (voice_dscp port) \<noteq> dscp
                  then (case dscp of None \<Rightarrow> Inl TypeError
                        | Some d \<Rightarrow> Inr [''voice vlan dscp '' @ d])
                  else Inr []) of
              Inl e \<Rightarrow> Inl e
            | Inr c2 \<Rightarrow>
                (case lldp_modes of
                   None \<Rightarrow> Inl TypeError
                 | Some ls \<Rightarrow>
                     Inr (c1 @ c2 @ map (\<lambda>ltype. ''lldp '' @ ltype)
                                        (filter (\<lambda>ltype. ltype \<notin> set (lldp port)) ls))))
      else if state = ''absent'' then
        Inr ((if voice_vlan port \<noteq> ''no'' then [''no voice vlan''] else [])
             @ (if voice_dscp port \<noteq> ''no'' then [''no voice vlan dscp''] else []))
      else Inr [])"

text \<open>\<open>0\/(\d+)-0\/(\d+)\<close> matched at the start of \<open>s\<close>: the two groups.\<close>

fun expect_str :: "string \<Rightarrow> string \<Rightarrow> string option" where
  "expect_str [] s = Some s"
| "expect_str (c # cs) s = (case expect c s of None \<Rightarrow> None | Some r \<Rightarrow> expect_str cs r)"

definition match_voice_range :: "string \<Rightarrow> (string \<times> string) option" where
  "match_voice_range s =
     (case expect_str ''0/'' s of
        None \<Rightarrow> None
      | Some r \<Rightarrow>
          (case digits_then (CHR ''-'') r of
             None \<Rightarrow> None
           | Some (g1, r1) \<Rightarrow>
               (case expect_str ''0/'' r1 of
                  None \<Rightarrow> None
                | Some r2 \<Rightarrow>
                    (let g2 = fst (span_digits r2) in
                     if g2 = [] then None else Some (g1, g2)))))"

fun search_voice_range :: "string \<Rightarrow> (string \<times> string) option" where
  "search_voice_range [] = None"
| "search_voice_range (c # cs) =
     (case match_voice_range (c # cs) of Some m \<Rightarrow> Some m | None \<Rightarrow> search_voice_range cs)"

text \<open>\<open>key.startswith('0/')\<close>.\<close>

definition startswith :: "string \<Rightarrow> string \<Rightarrow> bool" where
  "startswith key p = (take (length p) key = p)"

text \<open>\<open>port = ports[key]; interfaces_cmd[key] = map_to_commands_interface(...)\<close>.\<close>

definition voice_assign ::
  "voice_want \<Rightarrow> (string \<times> voice_port) list \<Rightarrow> string \<Rightarrow> (string \<times> string list) list
   \<Rightarrow> error + (string \<times> string list) list" where
  "voice_assign w ports key interfaces_cmd =
     (case dict_get ports key of
        Inl e \<Rightarrow> Inl e
      | Inr port \<Rightarrow>
          (case map_to_commands_interface (str_opt_int (vo_vlan_id w)) (vo_dscp w) (vo_lldp w)
                  (vo_state w) port of
             Inl e \<Rightarrow> Inl e
           | Inr cs \<Rightarrow> Inr (dict_set key cs interfaces_cmd)))"

text \<open>The body of the loop over \<open>interfaces\<close> (lines 131-148), for one token \<open>i\<close>.\<close>

definition voice_token ::
  "voice_want \<Rightarrow> (string \<times> voice_port) list \<Rightarrow> string \<Rightarrow> (string \<times> string list) list
   \<Rightarrow> error + (string \<times> string list) list" where
  "voice_token w ports i interfaces_cmd =
     (if i = ''all'' then
        fold_err (\<lambda>kv d. if \<not> startswith (fst kv) ''0/'' then Inr d
                          else voice_assign w ports (fst kv) d) ports interfaces_cmd
      else
        (case search_voice_range i of
           Some (g1, g2) \<Rightarrow>
             fold_err (\<lambda>x d. voice_assign w ports (''0/'' @ str_nat x) d)
                      [int_of_digits g1 ..< int_of_digits g2 + 1] interfaces_cmd
         | None \<Rightarrow> voice_assign w ports i interfaces_cmd))"

definition voice_blocks :: "(string \<times> string list) list \<Rightarrow> string list" where
  "voice_blocks interfaces_cmd =
     concat (map (\<lambda>(i, t). if length t > 0 then (''interface '' @ i) # t else []) interfaces_cmd)"

definition missing_vlan_id_msg :: string where
  "missing_vlan_id_msg =
     ''state is '' @ [CHR 0x27] @ ''present'' @ [CHR 0x27] @ '' but the following is missing: vlan_id''"

text \<open>The body of the loop over \<open>want\<close> (lines 120-153), on \<open>commands\<close>.\<close>

definition voice_want_step ::
  "(string \<times> voice_port) list \<Rightarrow> voice_want \<Rightarrow> string list \<Rightarrow> error + string list" where
  "voice_want_step ports w commands =
     (if vo_state w = ''present'' \<and> str_opt_int (vo_vlan_id w) = ''None''
      then Inl (FailJson missing_vlan_id_msg)
      else (case vo_interfaces w of
              None \<Rightarrow> Inl TypeError
            | Some interfaces \<Rightarrow>
                (case fold_err (voice_token w ports) interfaces [] of
                   Inl e \<Rightarrow> Inl e
                 | Inr interfaces_cmd \<Rightarrow> Inr (commands @ voice_blocks interfaces_cmd))))"

definition map_to_commands ::
  "voice_want list \<Rightarrow> (string \<times> voice_port) list \<Rightarrow> error + string list" where
  "map_to_commands want ports = fold_err (voice_want_step ports) want []"

text \<open>\<open>main\<close> of edgeswitch\_voice (lines 214-225).\<close>

definition voice_main ::
  "voice_want list \<Rightarrow> (string \<times> voice_port) list \<Rightarrow> bool \<Rightarrow> module_result run" where
  "voice_main want have check_mode =
     (case map_to_commands want have of
        Inl e \<Rightarrow> \<lparr>sent = [], outcome = Inl e\<rparr>
      | Inr cmds \<Rightarrow>
          \<lparr>sent = (if cmds \<noteq> [] \<and> \<not> check_mode then cmds else []),
           outcome = Inr \<lparr>res_changed = (cmds \<noteq> []), res_commands = cmds\<rparr>\<rparr>)"

section \<open>Example inputs\<close>

text \<open>A desired VLAN entry with the given id, name and state, every other option unset.\<close>

definition vlan_entry :: "pyval \<Rightarrow> string option \<Rightarrow> string \<Rightarrow> vlan_want" where
  "vlan_entry vlan_id name state =
     \<lparr>vw_vlan_id = vlan_id, vw_name = name, vw_state = state,
      vw_auto_tag = None, vw_auto_untag = None, vw_auto_exclude = None,
      vw_tagged_interfaces = None, vw_untagged_interfaces = None,
      vw_excluded_interfaces = None\<rparr>"

definition vlan_row :: "string \<Rightarrow> string \<Rightarrow> vlan_have" where
  "vlan_row vlan_id name = \<lparr>vh_vlan_id = vlan_id, vh_name = name\<rparr>"

text \<open>A port as the device lists it out of the box: untagged member of VLAN 1 only.\<close>

definition default_port :: port where
  "default_port = \<lparr>pvid_mode = ''1'', untagged_vlans = [''1''], tagged_vlans = [''''],
                    forbidden_vlans = ['''']\<rparr>"



definition voice_entry :: "int option \<Rightarrow> string list \<Rightarrow> string \<Rightarrow> voice_want" where
  "voice_entry vlan_id interfaces state =
     \<lparr>vo_vlan_id = vlan_id, vo_dscp = Some ''46'', vo_interfaces = Some interfaces,
      vo_lldp = Some [''med''], vo_state = state\<rparr>"

definition plain_voice_port :: voice_port where
  "plain_voice_port = \<lparr>voice_vlan = ''no'', voice_dscp = ''no'', lldp = []\<rparr>"

definition iface_entry :: "string \<Rightarrow> bool option \<Rightarrow> iface_want" where
  "iface_entry name disable =
     \<lparr>iw_name = name, iw_description = None, iw_speed = None, iw_mtu = None,
      iw_disable = disable\<rparr>"

definition iface_row :: "string \<Rightarrow> bool \<Rightarrow> iface_have" where
  "iface_row name disable =
     \<lparr>ih_name = Some name, ih_description = None, ih_speed = Some ''auto'', ih_mtu = None,
      ih_disable = disable\<rparr>"

section \<open>Desired state that the device already has\<close>










section \<open>Predicates of the proofs\<close>

text \<open>
  An accumulator of the voice module that has no entry for the interface \<open>k\<close> and no
  sub-command that reads as the header of \<open>k\<close>.
\<close>

definition silent_for :: "string \<Rightarrow> (string \<times> string list) list \<Rightarrow> bool" where
  "silent_for k d = (\<forall>(key, cs)\<in>set d. key \<noteq> k \<and> ''interface '' @ k \<notin> set cs)"



section \<open>The VLAN database phase\<close>

lemma want_vlan_commands_cases:
  assumes "x \<in> set (want_vlan_commands have w)"
  shows "(x = ''no vlan '' @ py_str (vw_vlan_id w) \<and> vw_state w = ''absent'')
       \<or> x = ''vlan '' @ py_str (vw_vlan_id w)
       \<or> (\<exists>n. x = vlan_name_cmd (vw_vlan_id w) n)"
  using assms
  by (auto simp: want_vlan_commands_def Let_def split: if_splits option.splits)

lemma count_list_concat_zero:
  "(\<And>x. x \<in> set xs \<Longrightarrow> c \<notin> set (f x)) \<Longrightarrow> count_list (concat (map f xs)) c = 0"
  by (induction xs) auto

lemma count_want_delete:
  assumes "\<forall>w\<in>set want. py_str (vw_vlan_id w) \<noteq> v"
  shows "count_list (concat (map (want_vlan_commands have) want)) (''no vlan '' @ v) = 0"
proof (rule count_list_concat_zero)
  fix w assume w: "w \<in> set want"
  show "''no vlan '' @ v \<notin> set (want_vlan_commands have w)"
  proof
    assume "''no vlan '' @ v \<in> set (want_vlan_commands have w)"
    from want_vlan_commands_cases[OF this] w assms show False
      by (auto simp: vlan_name_cmd_def)
  qed
qed

lemma search_want_absent:
  assumes "\<forall>w\<in>set want. py_str (vw_vlan_id w) \<noteq> v"
  shows "search_obj_in_list (PStr v) vw_vlan_id want = None"
  using assms by (auto simp: search_obj_in_list_def find_None_iff)

lemma count_purge_delete:
  assumes "\<forall>w\<in>set want. py_str (vw_vlan_id w) \<noteq> v" and "v \<noteq> ''1''"
  shows "count_list (concat (map (purge_vlan_commands want) have)) (''no vlan '' @ v)
         = length (filter (\<lambda>h. vh_vlan_id h = v) have)"
  using search_want_absent[OF assms(1)] assms(2)
  by (induction "have") (auto simp: purge_vlan_commands_def Let_def)

lemma purge_exempts_default: "''no vlan 1'' \<notin> set (purge_vlan_commands want h)"
  by (auto simp: purge_vlan_commands_def Let_def)

lemma str_int_1: "str_int 1 = ''1''"
  by (simp add: str_int_def str_nat.simps digit_char_def)

lemma str_int_100: "str_int 100 = ''100''"
  by (simp add: str_int_def str_nat.simps digit_char_def)

text \<open>
  C1. The claim: with a desired entry for VLAN 1 in state absent and VLAN 1 observed, no
  command is emitted. The code emits the delete: the loop over the desired list (lines
  157-159) appends \<open>no vlan 1\<close> for an observed VLAN 1, whether the id arrives as the int
  1 or as the string \<open>1\<close>; only the purge loop (lines 174-175) exempts VLAN 1.
\<close>

theorem C1_absent_request_deletes_vlan_1:
  "map_vlans_to_commands ([vlan_entry (PInt 1) None ''absent''], [vlan_row ''1'' ''default'']) False
     = [''vlan database'', ''no vlan 1'', ''exit'']
   \<and> map_vlans_to_commands ([vlan_entry (PStr ''1'') None ''absent''], [vlan_row ''1'' ''default'']) False
     = [''vlan database'', ''no vlan 1'', ''exit'']"
  by (simp add: map_vlans_to_commands_def vlan_phase_commands_def want_vlan_commands_def
      search_obj_in_list_def have_id_def vlan_entry_def vlan_row_def str_int_1)

text \<open>
  C6. Under purge every observed VLAN whose id no desired entry carries, VLAN 1 apart,
  gets one delete command: \<open>no vlan v\<close> occurs as often as the observed list has an
  entry with id \<open>v\<close>, so once when the observed ids are distinct. And when no desired
  entry asks for VLAN 1 to be absent, \<open>no vlan 1\<close> is not among the commands, with or
  without purge.
\<close>

theorem C6_purge_deletes_unwanted_except_default:
  "(v \<noteq> ''1'' \<and> (\<forall>w\<in>set want. py_str (vw_vlan_id w) \<noteq> v) \<longrightarrow>
      count_list (map_vlans_to_commands (want, have) True) (''no vlan '' @ v)
        = length (filter (\<lambda>h. vh_vlan_id h = v) have))
   \<and> ((\<forall>w\<in>set want. \<not> (py_str (vw_vlan_id w) = ''1'' \<and> vw_state w = ''absent'')) \<longrightarrow>
      ''no vlan 1'' \<notin> set (map_vlans_to_commands (want, have) purge))"
proof (intro conjI impI)
  assume a: "v \<noteq> ''1'' \<and> (\<forall>w\<in>set want. py_str (vw_vlan_id w) \<noteq> v)"
  have "count_list (vlan_phase_commands want have True) (''no vlan '' @ v)
        = length (filter (\<lambda>h. vh_vlan_id h = v) have)"
    using a count_want_delete[of want v "have"] count_purge_delete[of want v "have"]
    by (simp add: vlan_phase_commands_def)
  then show "count_list (map_vlans_to_commands (want, have) True) (''no vlan '' @ v)
        = length (filter (\<lambda>h. vh_vlan_id h = v) have)"
    by (auto simp: map_vlans_to_commands_def Let_def)
next
  assume a: "\<forall>w\<in>set want. \<not> (py_str (vw_vlan_id w) = ''1'' \<and> vw_state w = ''absent'')"
  have "''no vlan 1'' \<notin> set (want_vlan_commands have w)" if "w \<in> set want" for w
  proof
    assume "''no vlan 1'' \<in> set (want_vlan_commands have w)"
    from want_vlan_commands_cases[OF this] a that show False
      by (auto simp: vlan_name_cmd_def)
  qed
  then have "''no vlan 1'' \<notin> set (vlan_phase_commands want have purge)"
    using purge_exempts_default by (auto simp: vlan_phase_commands_def)
  then show "''no vlan 1'' \<notin> set (map_vlans_to_commands (want, have) purge)"
    by (auto simp: map_vlans_to_commands_def Let_def)
qed

theorem C6_purge_witness:
  "count_list (map_vlans_to_commands
       ([vlan_entry (PStr ''100'') None ''present''],
        [vlan_row ''1'' ''default'', vlan_row ''100'' ''voice'', vlan_row ''200'' ''video'']) True)
     ''no vlan 200'' = 1
   \<and> ''no vlan 1'' \<notin> set (map_vlans_to_commands
       ([vlan_entry (PStr ''100'') None ''present''],
        [vlan_row ''1'' ''default'', vlan_row ''100'' ''voice'', vlan_row ''200'' ''video'']) True)"
  using C6_purge_deletes_unwanted_except_default
    [of "''200''" "[vlan_entry (PStr ''100'') None ''present'']"
        "[vlan_row ''1'' ''default'', vlan_row ''100'' ''voice'', vlan_row ''200'' ''video'']" True]
  by (simp add: vlan_entry_def vlan_row_def)

text \<open>
  C7. The VLAN database phase puts \<open>vlan database\<close> before its commands and \<open>exit\<close>
  after them exactly when it produced a command, and returns the empty list otherwise;
  a present VLAN 100 named voice that the device does not have gives the four commands
  of the example.
\<close>

theorem C7_vlan_database_wrapping:
  "map_vlans_to_commands (want, have) purge
     = (if vlan_phase_commands want have purge = [] then []
        else ''vlan database'' # vlan_phase_commands want have purge @ [''exit''])
   \<and> ((map_vlans_to_commands (want, have) purge = []) = (vlan_phase_commands want have purge = []))
   \<and> map_vlans_to_commands ([vlan_entry (PInt 100) (Some ''voice'') ''present''], []) False
     = [''vlan database'', ''vlan 100'', ''vlan name 100 '' @ [CHR 0x22] @ ''voice'' @ [CHR 0x22],
        ''exit'']
   \<and> map_vlans_to_commands ([vlan_entry (PInt 100) (Some ''voice'') ''present''],
        [vlan_row ''100'' ''voice'']) False = []"
  by (simp add: map_vlans_to_commands_def vlan_phase_commands_def want_vlan_commands_def
      search_obj_in_list_def have_id_def vlan_entry_def vlan_row_def vlan_name_cmd_def str_int_100)

section \<open>The voice VLAN sub-command\<close>

text \<open>
  C4. In state present, for a port whose observed voice VLAN differs from the desired
  one, whenever \<open>map_to_commands_interface\<close> returns, the first sub-command is the
  literal \<open>voice vlan {}\<close> followed by the id, which is not \<open>voice vlan\<close>, a blank and
  the id; and it does return when dscp and the lldp list are given.
\<close>

theorem C4_voice_vlan_literal_braces:
  assumes "voice_vlan port \<noteq> vlan_id"
  shows "(\<forall>cmds. map_to_commands_interface vlan_id dscp lldp_modes ''present'' port = Inr cmds
            \<longrightarrow> cmds \<noteq> [] \<and> hd cmds = ''voice vlan {}'' @ vlan_id)
       \<and> (\<exists>rest. map_to_commands_interface vlan_id (Some d) (Some ls) ''present'' port
            = Inr ((''voice vlan {}'' @ vlan_id) # rest))
       \<and> ''voice vlan {}'' @ vlan_id \<noteq> ''voice vlan '' @ vlan_id"
  using assms
  by (auto simp: map_to_commands_interface_def Let_def split: if_splits option.splits sum.splits)

theorem C4_voice_vlan_witness:
  "voice_vlan plain_voice_port \<noteq> ''100''
   \<and> map_to_commands_interface ''100'' (Some ''46'') (Some [''med'']) ''present'' plain_voice_port
       = Inr [''voice vlan {}100'', ''voice vlan dscp 46'', ''lldp med'']
   \<and> map_to_commands [voice_entry (Some 100) [''0/1''] ''present''] [(''0/1'', plain_voice_port)]
       = Inr [''interface 0/1'', ''voice vlan {}100'', ''voice vlan dscp 46'', ''lldp med'']"
proof -
  have h: "voice_vlan plain_voice_port \<noteq> ''100''"
    by (simp add: plain_voice_port_def)
  have e: "map_to_commands_interface ''100'' (Some ''46'') (Some [''med'']) ''present'' plain_voice_port
       = Inr [''voice vlan {}100'', ''voice vlan dscp 46'', ''lldp med'']"
    using C4_voice_vlan_literal_braces [OF h, of "Some ''46''" "Some [''med'']" "''46''" "[''med'']"]
    by (simp add: map_to_commands_interface_def plain_voice_port_def)
  have m: "map_to_commands [voice_entry (Some 100) [''0/1''] ''present''] [(''0/1'', plain_voice_port)]
       = Inr [''interface 0/1'', ''voice vlan {}100'', ''voice vlan dscp 46'', ''lldp med'']"
    by (simp add: map_to_commands_def voice_want_step_def voice_entry_def voice_token_def
        match_voice_range_def voice_assign_def dict_get_def e str_int_100
        voice_blocks_def digits_then_def span_digits_def is_digit_def)
  from h e m show ?thesis by simp
qed

section \<open>Validation of the desired VLAN entries\<close>

lemma fold_err_append:
  "fold_err f (xs @ ys) s = (case fold_err f xs s of Inl e \<Rightarrow> Inl e | Inr s' \<Rightarrow> fold_err f ys s')"
  by (induction xs arbitrary: s) (auto split: sum.splits)

lemma fold_err_fails:
  assumes "x \<in> set xs" and "\<And>s. \<exists>e. f x s = Inl e"
  shows "\<exists>e. fold_err f xs s = Inl e"
  using assms(1)
proof (induction xs arbitrary: s)
  case Nil
  then show ?case by simp
next
  case (Cons y ys)
  show ?case
  proof (cases "f y s")
    case (Inl e)
    then show ?thesis by simp
  next
    case (Inr s')
    show ?thesis
    proof (cases "x = y")
      case True
      with assms(2)[of s] Inr show ?thesis by auto
    next
      case False
      with Cons.prems have "x \<in> set ys" by simp
      from Cons.IH[OF this, of s'] Inr show ?thesis by simp
    qed
  qed
qed

lemma vlan_main_invalid:
  "check_params want = Inl e \<Longrightarrow>
     vlan_main want have ports purge check_mode = \<lparr>sent = [], outcome = Inl e\<rparr>"
  by (simp add: vlan_main_def)

lemma check_params_fails:
  assumes "w \<in> set want" and "\<exists>e. check_want w = Inl e"
  shows "\<exists>e. check_params want = Inl e
            \<and> vlan_main want have ports purge check_mode = \<lparr>sent = [], outcome = Inl e\<rparr>"
proof -
  obtain e where "check_params want = Inl e"
    unfolding check_params_def
    using fold_err_fails[of w want "\<lambda>w u. check_want w" "()"] assms by auto
  then show ?thesis by (auto simp: vlan_main_invalid)
qed

text \<open>
  C9. A desired VLAN entry with more than one of \<open>auto_tag\<close>, \<open>auto_untag\<close>,
  \<open>auto_exclude\<close> set fails validation with the message that names the three fields:
  alone, and after any entries that pass validation; wherever it stands in the desired
  list validation fails, and the run ends with that error and no command given to the
  device.
\<close>

theorem C9_mutually_exclusive_rejected:
  assumes "(if truthy_bool (vw_auto_tag w) then 1 else 0)
           + (if truthy_bool (vw_auto_untag w) then 1 else 0)
           + (if truthy_bool (vw_auto_exclude w) then 1 else (0::nat)) > 1"
  shows "check_params [w]
           = Inl (FailJson ''parameters are mutually exclusive: auto_tag, auto_untag, auto_exclude'')
       \<and> (check_params pre = Inr () \<longrightarrow>
           check_params (pre @ w # post)
             = Inl (FailJson ''parameters are mutually exclusive: auto_tag, auto_untag, auto_exclude'')
           \<and> vlan_main (pre @ w # post) have ports purge check_mode
             = \<lparr>sent = [], outcome =
                  Inl (FailJson ''parameters are mutually exclusive: auto_tag, auto_untag, auto_exclude'')\<rparr>)
       \<and> (w \<in> set want \<longrightarrow>
           (\<exists>e. check_params want = Inl e
                \<and> vlan_main want have ports purge check_mode = \<lparr>sent = [], outcome = Inl e\<rparr>))"
proof -
  have cw: "check_want w
      = Inl (FailJson ''parameters are mutually exclusive: auto_tag, auto_untag, auto_exclude'')"
    using assms by (auto simp: check_want_def Let_def mutually_exclusive_msg_def split: if_splits)
  have 1: "check_params [w]
           = Inl (FailJson ''parameters are mutually exclusive: auto_tag, auto_untag, auto_exclude'')"
    using cw by (simp add: check_params_def)
  have 2: "check_params (pre @ w # post)
             = Inl (FailJson ''parameters are mutually exclusive: auto_tag, auto_untag, auto_exclude'')"
    if "check_params pre = Inr ()"
    using that cw by (simp add: check_params_def fold_err_append)
  have 3: "\<exists>e. check_params want = Inl e
                \<and> vlan_main want have ports purge check_mode = \<lparr>sent = [], outcome = Inl e\<rparr>"
    if "w \<in> set want"
    using check_params_fails[OF that] cw by simp
  show ?thesis
    using 1 2 3 by (simp add: vlan_main_invalid)
qed

theorem C9_mutually_exclusive_witness:
  "vlan_main [vlan_entry (PStr ''100'') None ''present'',
              (vlan_entry (PStr ''200'') None ''present'')
                \<lparr>vw_auto_tag := Some True, vw_auto_exclude := Some True\<rparr>]
       [] [(''0/1'', default_port)] False False
     = \<lparr>sent = [], outcome =
          Inl (FailJson ''parameters are mutually exclusive: auto_tag, auto_untag, auto_exclude'')\<rparr>"
proof -
  let ?w = "(vlan_entry (PStr ''200'') None ''present'')
                \<lparr>vw_auto_tag := Some True, vw_auto_exclude := Some True\<rparr>"
  have h: "(if truthy_bool (vw_auto_tag ?w) then 1 else 0)
           + (if truthy_bool (vw_auto_untag ?w) then 1 else 0)
           + (if truthy_bool (vw_auto_exclude ?w) then 1 else (0::nat)) > 1"
    by (simp add: vlan_entry_def)
  have p: "check_params [vlan_entry (PStr ''100'') None ''present''] = Inr ()"
    by (simp add: check_params_def check_want_def check_parmams_interface_def vlan_entry_def)
  from C9_mutually_exclusive_rejected
         [OF h, of "[vlan_entry (PStr ''100'') None ''present'']" "[]" "[]"
            "[(''0/1'', default_port)]" False False] p
  show ?thesis by simp
qed

section \<open>Range expansion\<close>

lemma span_digits_run:
  assumes "\<forall>c\<in>set ds. is_digit c" and "\<not> is_digit x"
  shows "span_digits (ds @ x # rest) = (ds, x # rest)"
  using assms by (simp add: span_digits_def takeWhile_tail dropWhile_append3)

lemma span_digits_all:
  assumes "\<forall>c\<in>set ds. is_digit c"
  shows "span_digits ds = (ds, [])"
  using assms by (simp add: span_digits_def)

lemma digits_then_run:
  assumes "is_digits ds" and "\<not> is_digit x"
  shows "digits_then x (ds @ x # rest) = Some (ds, rest)"
  using assms by (simp add: digits_then_def span_digits_run is_digits_def)

lemma not_digit_slash: "\<not> is_digit (CHR ''/'')"
  by (simp add: is_digit_def)

lemma not_digit_dash: "\<not> is_digit (CHR ''-'')"
  by (simp add: is_digit_def)

lemma match_range_token:
  assumes "is_digits ga" "is_digits ia" "is_digits gb" "is_digits ib"
  shows "match_range (ga @ ''/'' @ ia @ ''-'' @ gb @ ''/'' @ ib) = Some (ga, ia, gb, ib)"
proof -
  have 1: "digits_then (CHR ''/'') (ga @ CHR ''/'' # (ia @ ''-'' @ gb @ ''/'' @ ib))
            = Some (ga, ia @ ''-'' @ gb @ ''/'' @ ib)"
    using assms(1) not_digit_slash by (rule digits_then_run)
  have 2: "digits_then (CHR ''-'') (ia @ CHR ''-'' # (gb @ ''/'' @ ib)) = Some (ia, gb @ ''/'' @ ib)"
    using assms(2) not_digit_dash by (rule digits_then_run)
  have 3: "digits_then (CHR ''/'') (gb @ CHR ''/'' # ib) = Some (gb, ib)"
    using assms(3) not_digit_slash by (rule digits_then_run)
  show ?thesis
    using 1 2 3 assms(4) by (simp add: match_range_def span_digits_all is_digits_def)
qed

lemma search_range_token:
  assumes "is_digits ga" "is_digits ia" "is_digits gb" "is_digits ib"
  shows "search_range (ga @ ''/'' @ ia @ ''-'' @ gb @ ''/'' @ ib) = Some (ga, ia, gb, ib)"
proof -
  obtain c cs where "ga @ ''/'' @ ia @ ''-'' @ gb @ ''/'' @ ib = c # cs"
    using assms(1) by (cases ga) (auto simp: is_digits_def)
  then show ?thesis using match_range_token[OF assms] by simp
qed

lemma map_of_dict_set: "map_of (dict_set k v d) = (map_of d)(k \<mapsto> v)"
  by (induction d) (auto simp: fun_eq_iff)

lemma map_of_fold_dict_set:
  "map_of (fold (\<lambda>x d. dict_set (f x) v d) xs d)
     = (\<lambda>k. if k \<in> f ` set xs then Some v else map_of d k)"
  by (induction xs arbitrary: d) (auto simp: map_of_dict_set fun_eq_iff)

lemma check_parmams_interface_fails:
  assumes "i \<in> set toks" and "check_token i = Inl e"
  shows "\<exists>e. check_parmams_interface (Some toks) = Inl e"
  using fold_err_fails[of i toks "\<lambda>i u. check_token i" "()"] assms
  by (simp add: check_parmams_interface_def)

lemma check_want_bad_token:
  assumes "check_token i = Inl e" and "i \<in> set toks"
    and "vw_tagged_interfaces w = Some toks \<or> vw_untagged_interfaces w = Some toks
         \<or> vw_excluded_interfaces w = Some toks"
  shows "\<exists>e. check_want w = Inl e"
  using check_parmams_interface_fails[OF assms(2,1)] assms(3)
  by (auto simp: check_want_def Let_def split: sum.splits)

text \<open>
  C5. For a token \<open>g/a-g/b\<close> (each part a run of digits) \<open>set_interfaces\<close> stores the
  action under exactly the keys \<open>g/i\<close> with \<open>i\<close> from \<open>a\<close> to \<open>b\<close> inclusive and leaves
  every other key as it was; \<open>0/4-0/6\<close> gives 0/4, 0/5, 0/6. For a token whose two
  groups differ, \<open>check_parmams_interface\<close> fails with a message that ends in the token,
  and a desired list with such a token in an interface list fails validation: the run
  ends with the error and no command given to the device.
\<close>

theorem C5_range_expansion:
  assumes "is_digits ga" "is_digits ia" "is_digits gb" "is_digits ib"
  shows "map_of (set_interfaces (Some [ga @ ''/'' @ ia @ ''-'' @ ga @ ''/'' @ ib]) d act)
           = (\<lambda>k. if k \<in> (\<lambda>i. ga @ ''/'' @ str_nat i) ` {int_of_digits ia .. int_of_digits ib}
                   then Some act else map_of d k)
       \<and> set_interfaces (Some [''0/4-0/6'']) [] act = [(''0/4'', act), (''0/5'', act), (''0/6'', act)]
       \<and> (ga \<noteq> gb \<longrightarrow>
            check_parmams_interface (Some [ga @ ''/'' @ ia @ ''-'' @ gb @ ''/'' @ ib])
              = Inl (FailJson (''interface range must be withing same group: ''
                               @ ga @ ''/'' @ ia @ ''-'' @ gb @ ''/'' @ ib)))
       \<and> (ga \<noteq> gb \<and> w \<in> set want \<and> ga @ ''/'' @ ia @ ''-'' @ gb @ ''/'' @ ib \<in> set toks
            \<and> (vw_tagged_interfaces w = Some toks \<or> vw_untagged_interfaces w = Some toks
                \<or> vw_excluded_interfaces w = Some toks) \<longrightarrow>
            (\<exists>e. check_params want = Inl e
                 \<and> vlan_main want have ports purge check_mode = \<lparr>sent = [], outcome = Inl e\<rparr>))"
proof -
  let ?tok = "ga @ ''/'' @ ia @ ''-'' @ gb @ ''/'' @ ib"
  have "set [int_of_digits ia ..< int_of_digits ib + 1] = {int_of_digits ia .. int_of_digits ib}"
    by auto
  then have 1: "map_of (set_interfaces (Some [ga @ ''/'' @ ia @ ''-'' @ ga @ ''/'' @ ib]) d act)
           = (\<lambda>k. if k \<in> (\<lambda>i. ga @ ''/'' @ str_nat i) ` {int_of_digits ia .. int_of_digits ib}
                   then Some act else map_of d k)"
    using search_range_token[OF assms(1,2,1,4)]
    by (simp add: set_interfaces_def set_interface_token_def map_of_fold_dict_set del: upt_Suc)
  have 2: "set_interfaces (Some [''0/4-0/6'']) [] act
             = [(''0/4'', act), (''0/5'', act), (''0/6'', act)]"
    by (simp add: set_interfaces_def set_interface_token_def match_range_def digits_then_def
        span_digits_def is_digit_def int_of_digits_def digit_val_def upt_rec str_nat.simps
        digit_char_def)
  have ct: "check_token ?tok
              = Inl (FailJson (''interface range must be withing same group: '' @ ?tok))"
    if "ga \<noteq> gb"
    using search_range_token[OF assms] that by (simp add: check_token_def)
  have 3: "check_parmams_interface (Some [?tok])
              = Inl (FailJson (''interface range must be withing same group: '' @ ?tok))"
    if "ga \<noteq> gb"
    using ct[OF that] by (simp add: check_parmams_interface_def)
  have 4: "\<exists>e. check_params want = Inl e
                 \<and> vlan_main want have ports purge check_mode = \<lparr>sent = [], outcome = Inl e\<rparr>"
    if "ga \<noteq> gb" "w \<in> set want" "?tok \<in> set toks"
       "vw_tagged_interfaces w = Some toks \<or> vw_untagged_interfaces w = Some toks
                \<or> vw_excluded_interfaces w = Some toks"
    using check_params_fails[OF that(2) check_want_bad_token[OF ct[OF that(1)] that(3,4)]] .
  show ?thesis
    using 1 2 3 4 by blast
qed

theorem C5_range_expansion_witness:
  "is_digits ''0'' \<and> is_digits ''4'' \<and> is_digits ''1'' \<and> is_digits ''6''
   \<and> check_parmams_interface (Some [''0/4-1/6''])
       = Inl (FailJson ''interface range must be withing same group: 0/4-1/6'')
   \<and> vlan_main [(vlan_entry (PStr ''100'') None ''present'')
                   \<lparr>vw_tagged_interfaces := Some [''0/1'', ''0/4-1/6'']\<rparr>]
        [] [(''0/1'', default_port)] False False
       = \<lparr>sent = [], outcome =
            Inl (FailJson ''interface range must be withing same group: 0/4-1/6'')\<rparr>"
proof -
  let ?w = "(vlan_entry (PStr ''100'') None ''present'')
                   \<lparr>vw_tagged_interfaces := Some [''0/1'', ''0/4-1/6'']\<rparr>"
  have d: "is_digits ''0''" "is_digits ''4''" "is_digits ''1''" "is_digits ''6''"
    by (simp_all add: is_digits_def is_digit_def)
  note t = C5_range_expansion[OF d, of "[]" Tag ?w "[?w]" "[''0/1'', ''0/4-1/6'']" "[]"
      "[(''0/1'', default_port)]" False False]
  from t have c: "check_parmams_interface (Some [''0/4-1/6''])
       = Inl (FailJson ''interface range must be withing same group: 0/4-1/6'')"
    by simp
  from t obtain e where e: "check_params [?w] = Inl e"
    and m: "vlan_main [?w] [] [(''0/1'', default_port)] False False = \<lparr>sent = [], outcome = Inl e\<rparr>"
    by (auto simp: vlan_entry_def)
  have "check_params [?w] = Inl (FailJson ''interface range must be withing same group: 0/4-1/6'')"
    by (simp add: check_params_def check_want_def check_parmams_interface_def check_token_def
        match_range_def match_single_def digits_then_def span_digits_def is_digit_def
        vlan_entry_def)
  with e have "e = FailJson ''interface range must be withing same group: 0/4-1/6''" by simp
  with d c m show ?thesis by simp
qed

section \<open>The token all of the voice module\<close>

lemma fold_err_filter:
  "fold_err (\<lambda>x s. if \<not> P x then Inr s else f x s) xs s = fold_err f (filter P xs) s"
  by (induction xs arbitrary: s) (auto split: sum.splits)

lemma set_dict_set: "set (dict_set k v d) \<subseteq> insert (k, v) (set d)"
  by (induction d) (auto split: if_splits)

lemma sub_commands_no_header:
  assumes "map_to_commands_interface v dscp l st p = Inr cs"
  shows "''interface '' @ k \<notin> set cs"
  using assms
  by (auto simp: map_to_commands_interface_def Let_def split: if_splits option.splits sum.splits)

lemma voice_assign_silent:
  assumes "voice_assign w ports key d = Inr d'" "silent_for k d" "key \<noteq> k"
  shows "silent_for k d'"
proof -
  from assms(1) obtain port cs where
    cs: "map_to_commands_interface (str_opt_int (vo_vlan_id w)) (vo_dscp w) (vo_lldp w) (vo_state w) port = Inr cs"
    and d': "d' = dict_set key cs d"
    by (auto simp: voice_assign_def split: sum.splits)
  from sub_commands_no_header[OF cs] assms(2,3) set_dict_set[of key cs d] show ?thesis
    unfolding silent_for_def d' by fastforce
qed

lemma fold_err_invariant:
  assumes "fold_err f xs s = Inr s'" "I s" "\<And>x s s'. x \<in> set xs \<Longrightarrow> I s \<Longrightarrow> f x s = Inr s' \<Longrightarrow> I s'"
  shows "I s'"
  using assms
proof (induction xs arbitrary: s)
  case Nil then show ?case by simp
next
  case (Cons x xs)
  from Cons.prems(1) obtain s1 where s1: "f x s = Inr s1" and r: "fold_err f xs s1 = Inr s'"
    by (auto split: sum.splits)
  have "I s1" using Cons.prems(3)[of x s s1] Cons.prems(2) s1 by simp
  show ?case
  proof (rule Cons.IH[OF r \<open>I s1\<close>])
    fix y t t' assume "y \<in> set xs" "I t" "f y t = Inr t'"
    then show "I t'" using Cons.prems(3)[of y t t'] by simp
  qed
qed

lemma startswith_append: "startswith (p @ s) p"
  by (simp add: startswith_def)

lemma voice_token_silent:
  assumes "voice_token w ports i d = Inr d'" "silent_for k d" "i \<noteq> k" "\<not> startswith k ''0/''"
  shows "silent_for k d'"
proof (cases "i = ''all''")
  case True
  with assms(1) have f: "fold_err (\<lambda>kv d. if \<not> startswith (fst kv) ''0/'' then Inr d
                          else voice_assign w ports (fst kv) d) ports d = Inr d'"
    by (simp add: voice_token_def)
  show ?thesis
  proof (rule fold_err_invariant[where I = "silent_for k", OF f assms(2)])
    fix x s s' assume "silent_for k s"
      "(if \<not> startswith (fst x) ''0/'' then Inr s else voice_assign w ports (fst x) s) = Inr s'"
    then show "silent_for k s'"
      using assms(4) by (auto split: if_splits intro: voice_assign_silent)
  qed
next
  case False
  show ?thesis
  proof (cases "search_voice_range i")
    case None
    with False assms(1) have "voice_assign w ports i d = Inr d'" by (simp add: voice_token_def)
    then show ?thesis using assms(2,3) by (rule voice_assign_silent)
  next
    case (Some g)
    obtain g1 g2 where g: "g = (g1, g2)" by (cases g)
    with Some False assms(1) have f: "fold_err (\<lambda>x d. voice_assign w ports (''0/'' @ str_nat x) d)
                      [int_of_digits g1 ..< int_of_digits g2 + 1] d = Inr d'"
      by (simp add: voice_token_def)
    show ?thesis
    proof (rule fold_err_invariant[where I = "silent_for k", OF f assms(2)])
      fix x s s' assume "silent_for k s" "voice_assign w ports (''0/'' @ str_nat x) s = Inr s'"
      moreover have "''0/'' @ str_nat x \<noteq> k" using assms(4) startswith_append[of "''0/''"] by auto
      ultimately show "silent_for k s'" using voice_assign_silent by blast
    qed
  qed
qed

lemma voice_blocks_silent:
  assumes "silent_for k d" shows "''interface '' @ k \<notin> set (voice_blocks d)"
  using assms by (fastforce simp: silent_for_def voice_blocks_def split: if_splits)

lemma voice_want_step_silent:
  assumes "voice_want_step ports w cmds = Inr cmds'" "''interface '' @ k \<notin> set cmds"
    "\<forall>toks. vo_interfaces w = Some toks \<longrightarrow> k \<notin> set toks" "\<not> startswith k ''0/''"
  shows "''interface '' @ k \<notin> set cmds'"
proof -
  from assms(1) obtain toks d where t: "vo_interfaces w = Some toks"
    and f: "fold_err (voice_token w ports) toks [] = Inr d" and c: "cmds' = cmds @ voice_blocks d"
    by (auto simp: voice_want_step_def split: if_splits option.splits sum.splits)
  have "silent_for k d"
  proof (rule fold_err_invariant[where I = "silent_for k", OF f])
    show "silent_for k []" by (simp add: silent_for_def)
  next
    fix x s s' assume "x \<in> set toks" "silent_for k s" "voice_token w ports x s = Inr s'"
    then show "silent_for k s'"
      using assms(3,4) t voice_token_silent[of w ports x s s' k] by auto
  qed
  then show ?thesis using c assms(2) voice_blocks_silent by simp
qed

text \<open>
  C10. In the voice module the token \<open>all\<close> stands for the observed interfaces whose
  name starts with \<open>0/\<close> and no other: its loop is the loop over those entries of
  \<open>ports\<close>. An interface \<open>k\<close> of another group that no desired entry names itself gets
  no block: \<open>interface k\<close> is not among the commands returned.
\<close>

theorem C10_all_is_group_zero_only:
  assumes "\<not> startswith k ''0/''"
  shows "voice_token w ports ''all'' d
           = fold_err (\<lambda>kv. voice_assign w ports (fst kv))
                      (filter (\<lambda>kv. startswith (fst kv) ''0/'') ports) d
     \<and> ((\<forall>w\<in>set want. \<forall>toks. vo_interfaces w = Some toks \<longrightarrow> k \<notin> set toks)
          \<and> map_to_commands want ports = Inr cmds \<longrightarrow> ''interface '' @ k \<notin> set cmds)"
proof (intro conjI impI)
  show "voice_token w ports ''all'' d
           = fold_err (\<lambda>kv. voice_assign w ports (fst kv))
                      (filter (\<lambda>kv. startswith (fst kv) ''0/'') ports) d"
    by (simp add: voice_token_def fold_err_filter)
next
  assume a: "(\<forall>w\<in>set want. \<forall>toks. vo_interfaces w = Some toks \<longrightarrow> k \<notin> set toks)
          \<and> map_to_commands want ports = Inr cmds"
  then have f: "fold_err (voice_want_step ports) want [] = Inr cmds"
    by (simp add: map_to_commands_def)
  show "''interface '' @ k \<notin> set cmds"
  proof (rule fold_err_invariant[OF f, where I = "\<lambda>c. ''interface '' @ k \<notin> set c"])
    show "''interface '' @ k \<notin> set []" by simp
  next
    fix x s s' assume "x \<in> set want" "''interface '' @ k \<notin> set s" "voice_want_step ports x s = Inr s'"
    then show "''interface '' @ k \<notin> set s'"
      using a assms voice_want_step_silent[of ports x s s' k] by auto
  qed
qed

theorem C10_all_witness:
  "\<not> startswith ''1/1'' ''0/''
   \<and> map_to_commands [voice_entry (Some 100) [''all''] ''present'']
        [(''0/1'', plain_voice_port), (''1/1'', plain_voice_port)]
       = Inr [''interface 0/1'', ''voice vlan {}100'', ''voice vlan dscp 46'', ''lldp med'']
   \<and> ''interface 1/1'' \<notin> set [''interface 0/1'', ''voice vlan {}100'', ''voice vlan dscp 46'',
                                ''lldp med'']"
proof -
  have h: "\<not> startswith ''1/1'' ''0/''"
    by (simp add: startswith_def)
  have m: "map_to_commands [voice_entry (Some 100) [''all''] ''present'']
        [(''0/1'', plain_voice_port), (''1/1'', plain_voice_port)]
       = Inr [''interface 0/1'', ''voice vlan {}100'', ''voice vlan dscp 46'', ''lldp med'']"
    by (simp add: map_to_commands_def voice_want_step_def voice_entry_def voice_token_def
        startswith_def voice_assign_def dict_get_def map_to_commands_interface_def
        plain_voice_port_def voice_blocks_def str_int_100)
  from C10_all_is_group_zero_only[OF h, of "voice_entry (Some 100) [''all''] ''present''"
      "[(''0/1'', plain_voice_port), (''1/1'', plain_voice_port)]" "[]"
      "[voice_entry (Some 100) [''all''] ''present'']"
      "[''interface 0/1'', ''voice vlan {}100'', ''voice vlan dscp 46'', ''lldp med'']"] m
  have "''interface '' @ ''1/1'' \<notin> set [''interface 0/1'', ''voice vlan {}100'',
      ''voice vlan dscp 46'', ''lldp med'']"
    by (simp add: voice_entry_def)
  with h m show ?thesis by simp
qed

section \<open>Interfaces the device does not have\<close>

lemma iface_fold:
  "fold (iface_step g have) want (cmds, warns)
     = (cmds @ concat (map (\<lambda>w. case iface_search_obj_in_list (iw_name w) have of
                               None \<Rightarrow> []
                             | Some h \<Rightarrow> (if iface_commands g w h = [] then []
                                         else (''interface '' @ iw_name w) # iface_commands g w h))
                         want),
        warns @ map (\<lambda>w. not_exist_warning (iw_name w))
                    (filter (\<lambda>w. iface_search_obj_in_list (iw_name w) have = None) want))"
  by (induction want arbitrary: cmds warns)
     (auto simp: iface_step_def Let_def split: option.splits)

lemma concat_map_filter_found:
  "concat (map (\<lambda>w. case f w of None \<Rightarrow> [] | Some h \<Rightarrow> g w h) (filter (\<lambda>w. \<exists>y. f w = Some y) ws))
     = concat (map (\<lambda>w. case f w of None \<Rightarrow> [] | Some h \<Rightarrow> g w h) ws)"
  by (induction ws) (auto split: option.splits)

text \<open>
  C8, as amended: in the interface module each desired entry whose name the observed
  list does not have adds the warning \<open>interface X does not exist on target\<close>, in the
  order of the entries, and nothing else; the commands are the blocks of the other
  entries, each as if the missing ones were not in the list.
\<close>

theorem C8_interface_module_warns_and_continues:
  "snd (map_obj_to_commands (want, have) g warnings)
     = warnings @ map (\<lambda>w. ''interface '' @ iw_name w @ '' does not exist on target'')
                    (filter (\<lambda>w. iface_search_obj_in_list (iw_name w) have = None) want)
   \<and> fst (map_obj_to_commands (want, have) g warnings)
     = concat (map (\<lambda>w. case iface_search_obj_in_list (iw_name w) have of
                               None \<Rightarrow> []
                             | Some h \<Rightarrow> (if iface_commands g w h = [] then []
                                         else (''interface '' @ iw_name w) # iface_commands g w h))
                         want)
   \<and> fst (map_obj_to_commands (want, have) g warnings)
     = fst (map_obj_to_commands
              (filter (\<lambda>w. iface_search_obj_in_list (iw_name w) have \<noteq> None) want, have) g warnings)"
  by (simp add: map_obj_to_commands_def iface_fold not_exist_warning_def concat_map_filter_found)

theorem C8_interface_module_witness:
  "map_obj_to_commands
     ([iface_entry ''0/7'' (Some True), iface_entry ''0/2'' (Some False)],
      [iface_row ''0/2'' True]) (\<lambda>n. None) []
   = ([''interface 0/2'', ''no shutdown''], [''interface 0/7 does not exist on target''])"
proof -
  have "iface_search_obj_in_list ''0/7'' [iface_row ''0/2'' True] = None"
       "iface_search_obj_in_list ''0/2'' [iface_row ''0/2'' True] = Some (iface_row ''0/2'' True)"
    by (simp_all add: iface_search_obj_in_list_def iface_row_def)
  moreover have "iface_commands (\<lambda>n. None) (iface_entry ''0/2'' (Some False)) (iface_row ''0/2'' True)
      = [''no shutdown'']"
    by (simp add: iface_commands_def iface_entry_def iface_row_def)
  ultimately have
    "snd (map_obj_to_commands
       ([iface_entry ''0/7'' (Some True), iface_entry ''0/2'' (Some False)],
        [iface_row ''0/2'' True]) (\<lambda>n. None) []) = [''interface 0/7 does not exist on target'']"
    "fst (map_obj_to_commands
       ([iface_entry ''0/7'' (Some True), iface_entry ''0/2'' (Some False)],
        [iface_row ''0/2'' True]) (\<lambda>n. None) []) = [''interface 0/2'', ''no shutdown'']"
    using C8_interface_module_warns_and_continues
      [of "[iface_entry ''0/7'' (Some True), iface_entry ''0/2'' (Some False)]"
          "[iface_row ''0/2'' True]" "\<lambda>n. None" "[]"]
    by (simp_all add: iface_entry_def)
  then show ?thesis by (simp add: prod_eq_iff)
qed

text \<open>
  The claim as stated, for every module, fails in the other two: the voice module and
  the VLAN module read \<open>ports[key]\<close> for an interface the device does not have, which
  raises \<open>KeyError\<close>; there is no warning and no command list.
\<close>

theorem C8_voice_and_vlan_raise_counterexample:
  "map_to_commands [voice_entry (Some 100) [''0/9'', ''0/1''] ''present'']
       [(''0/1'', plain_voice_port)] = Inl (KeyError ''0/9'')
   \<and> voice_main [voice_entry (Some 100) [''0/9'', ''0/1''] ''present'']
       [(''0/1'', plain_voice_port)] False = \<lparr>sent = [], outcome = Inl (KeyError ''0/9'')\<rparr>
   \<and> map_interfaces_to_commands
       [(vlan_entry (PStr ''100'') None ''present'')\<lparr>vw_tagged_interfaces := Some [''0/9'', ''0/1'']\<rparr>]
       [(''0/1'', default_port)] = Inl (KeyError ''0/9'')"
  by (simp add: map_to_commands_def voice_want_step_def voice_entry_def voice_token_def
        startswith_def voice_assign_def dict_get_def match_voice_range_def digits_then_def
        span_digits_def is_digit_def voice_main_def
        map_interfaces_to_commands_def want_step_def want_interfaces_def set_interfaces_def
        set_interface_token_def match_range_def interface_step_def vlan_entry_def
        str_int_100 auto_step_def)

section \<open>The order of the interface blocks\<close>

lemma sort_key_fst_unique:
  assumes "distinct (map fst xs)" "distinct (map fst ys)" "set xs = set ys"
  shows "sort_key fst xs = sort_key fst ys"
proof (rule sort_key_inj_key_eq)
  have "distinct xs" "distinct ys" using assms(1,2) by (simp_all add: distinct_map)
  then have "mset xs = mset ys" using assms(3) by (simp add: set_eq_iff_mset_eq_distinct)
  then show "mset xs = mset (sort_key fst ys)" by simp
  show "inj_on fst (set xs)" using assms(1) by (simp add: distinct_map)
  show "sorted (map fst (sort_key fst ys))" by simp
qed

lemma blocks_by_keys:
  assumes "\<forall>(i, c)\<in>set xs. m i = Some c"
  shows "concat (map (\<lambda>(i, cmds). if length cmds > 0 then (''interface '' @ i) # cmds else []) xs)
       = concat (map (\<lambda>i. (''interface '' @ i) # the (m i))
                     (map fst (filter (\<lambda>(i, c). c \<noteq> []) xs)))"
  using assms by (induction xs) auto

lemma strict_sorted_keys:
  assumes "distinct (map fst acc)"
  shows "sorted_wrt (<) (map fst (filter P (sort_key fst acc)))"
proof -
  have "sorted (map fst (sort_key fst acc))" by simp
  moreover have "distinct (map fst (sort_key fst acc))"
    using assms by (metis distinct_map distinct_sort set_sort) 
  ultimately have "sorted_wrt (<) (map fst (sort_key fst acc))"
    by (simp add: strict_sorted_iff)
  then show ?thesis
    by (simp add: sorted_wrt_map sorted_wrt_filter)
qed

lemma blocks_in_key_order:
  assumes "distinct (map fst acc)"
  shows "\<exists>ks. sorted_wrt (<) ks \<and> set ks = {i. \<exists>c. (i, c) \<in> set acc \<and> c \<noteq> []}
          \<and> interface_blocks acc = concat (map (\<lambda>i. (''interface '' @ i) # the (map_of acc i)) ks)"
proof (intro exI conjI)
  let ?ks = "map fst (filter (\<lambda>(i, c). c \<noteq> []) (sort_key fst acc))"
  show "sorted_wrt (<) ?ks" using assms by (rule strict_sorted_keys)
  show "set ?ks = {i. \<exists>c. (i, c) \<in> set acc \<and> c \<noteq> []}" by force
  have "\<forall>(i, c)\<in>set (sort_key fst acc). map_of acc i = Some c"
    using assms by auto
  from blocks_by_keys[OF this] show "interface_blocks acc = concat (map (\<lambda>i. (''interface '' @ i) # the (map_of acc i)) ?ks)"
    by (simp add: interface_blocks_def)
qed

lemma map_fst_dict_extend: "map fst (dict_extend i cs d) = map fst d"
  by (induction d) (auto simp: dict_extend_def)

lemma interface_step_distinct:
  assumes "interface_step ports v it d = Inr d'" "distinct (map fst d)"
  shows "distinct (map fst d')"
  using assms
  by (auto simp: interface_step_def Let_def map_fst_dict_extend map_of_eq_None_iff
      split: prod.splits sum.splits option.splits)

lemma want_step_distinct:
  assumes "want_step ports w d = Inr d'" "distinct (map fst d)"
  shows "distinct (map fst d')"
proof (cases "vw_state w \<noteq> ''present''")
  case True with assms show ?thesis by (simp add: want_step_def)
next
  case False
  with assms(1) have f: "fold_err (interface_step ports (vw_vlan_id w)) (want_interfaces w ports) d = Inr d'"
    by (simp add: want_step_def)
  show ?thesis
    by (rule fold_err_invariant[where I = "\<lambda>d. distinct (map fst d)", OF f assms(2)])
       (rule interface_step_distinct)
qed

lemma accumulator_distinct:
  assumes "map_interfaces_to_commands want ports = Inr cmds"
  shows "\<exists>acc. distinct (map fst acc) \<and> cmds = interface_blocks acc"
proof -
  from assms obtain acc where f: "fold_err (want_step ports) want [] = Inr acc"
    and c: "cmds = interface_blocks acc"
    by (auto simp: map_interfaces_to_commands_def split: sum.splits)
  have "distinct (map fst acc)"
    by (rule fold_err_invariant[where I = "\<lambda>d. distinct (map fst d)", OF f])
       (auto intro: want_step_distinct)
  with c show ?thesis by blast
qed

text \<open>
  C3, as amended: in the VLAN module the blocks of the interfaces with at least one
  sub-command come in strictly ascending order of the interface name compared as a
  string, character by character (so \<open>0/10\<close> comes before \<open>0/2\<close>), each block the header
  and the sub-commands accumulated for that interface; two accumulators with the same
  content in another order give the same commands; and the commands
  \<open>map_interfaces_to_commands\<close> returns are the blocks of such an accumulator.
\<close>

theorem C3_blocks_in_string_order:
  "(distinct (map fst acc) \<longrightarrow>
      (\<exists>ks. sorted_wrt (<) ks \<and> set ks = {i. \<exists>c. (i, c) \<in> set acc \<and> c \<noteq> []}
          \<and> interface_blocks acc
              = concat (map (\<lambda>i. (''interface '' @ i) # the (map_of acc i)) ks))
      \<and> (\<forall>acc'. distinct (map fst acc') \<and> set acc' = set acc
            \<longrightarrow> interface_blocks acc' = interface_blocks acc))
   \<and> (map_interfaces_to_commands want ports = Inr cmds \<longrightarrow>
        (\<exists>acc. distinct (map fst acc) \<and> cmds = interface_blocks acc))
   \<and> ''0/10'' < ''0/2''"
proof (intro conjI impI allI)
  assume d: "distinct (map fst acc)"
  then show "\<exists>ks. sorted_wrt (<) ks \<and> set ks = {i. \<exists>c. (i, c) \<in> set acc \<and> c \<noteq> []}
          \<and> interface_blocks acc
              = concat (map (\<lambda>i. (''interface '' @ i) # the (map_of acc i)) ks)"
    by (rule blocks_in_key_order)
  fix acc' assume "distinct (map fst acc') \<and> set acc' = set acc"
  with d have "sort_key fst acc' = sort_key fst acc"
    by (intro sort_key_fst_unique) simp_all
  then show "interface_blocks acc' = interface_blocks acc"
    by (simp add: interface_blocks_def)
next
  assume "map_interfaces_to_commands want ports = Inr cmds"
  then show "\<exists>acc. distinct (map fst acc) \<and> cmds = interface_blocks acc"
    by (rule accumulator_distinct)
next
  show "''0/10'' < ''0/2''"
    by (simp add: less_char_def)
qed

theorem C3_blocks_witness:
  "distinct (map fst [(''0/2'', [''vlan pvid 5'']), (''0/10'', [''vlan tagging 5''])])
   \<and> interface_blocks [(''0/10'', [''vlan tagging 5'']), (''0/2'', [''vlan pvid 5''])]
       = [''interface 0/10'', ''vlan tagging 5'', ''interface 0/2'', ''vlan pvid 5'']
   \<and> interface_blocks [(''0/2'', [''vlan pvid 5'']), (''0/10'', [''vlan tagging 5''])]
       = [''interface 0/10'', ''vlan tagging 5'', ''interface 0/2'', ''vlan pvid 5'']"
proof -
  have d: "distinct (map fst [(''0/2'', [''vlan pvid 5'']), (''0/10'', [''vlan tagging 5''])])"
    by simp
  have e: "interface_blocks [(''0/2'', [''vlan pvid 5'']), (''0/10'', [''vlan tagging 5''])]
       = [''interface 0/10'', ''vlan tagging 5'', ''interface 0/2'', ''vlan pvid 5'']"
    by (simp add: interface_blocks_def less_char_def less_eq_char_def)
  from C3_blocks_in_string_order
         [of "[(''0/2'', [''vlan pvid 5'']), (''0/10'', [''vlan tagging 5''])]" "[]" "[]" "[]"] d
  have "\<forall>acc'. distinct (map fst acc')
            \<and> set acc' = set [(''0/2'', [''vlan pvid 5'']), (''0/10'', [''vlan tagging 5''])]
          \<longrightarrow> interface_blocks acc'
              = interface_blocks [(''0/2'', [''vlan pvid 5'']), (''0/10'', [''vlan tagging 5''])]"
    by blast
  then have "interface_blocks [(''0/10'', [''vlan tagging 5'']), (''0/2'', [''vlan pvid 5''])]
       = interface_blocks [(''0/2'', [''vlan pvid 5'']), (''0/10'', [''vlan tagging 5''])]"
    by (elim allE[where x = "[(''0/10'', [''vlan tagging 5'']), (''0/2'', [''vlan pvid 5''])]"])
       auto
  with d e show ?thesis by simp
qed

text \<open>
  The claim as stated fails: the VLAN module puts the block of \<open>0/10\<close> before the block
  of \<open>0/2\<close>, where the order by group and then by index as numbers has 2 before 10; and
  the voice module does not sort at all, its blocks come in the order in which the
  desired entry lists the interfaces.
\<close>

theorem C3_numeric_order_counterexample:
  "map_interfaces_to_commands
      [(vlan_entry (PStr ''5'') None ''present'')\<lparr>vw_auto_tag := Some True\<rparr>]
      [(''0/2'', default_port), (''0/10'', default_port)]
    = Inr [''interface 0/10'', ''vlan participation include 5'', ''vlan tagging 5'',
           ''interface 0/2'', ''vlan participation include 5'', ''vlan tagging 5'']
   \<and> map_to_commands [voice_entry None [''0/2'', ''0/1''] ''absent'']
       [(''0/1'', plain_voice_port\<lparr>voice_vlan := ''100''\<rparr>),
        (''0/2'', plain_voice_port\<lparr>voice_vlan := ''100''\<rparr>)]
     = Inr [''interface 0/2'', ''no voice vlan'', ''interface 0/1'', ''no voice vlan'']"
  by (simp add: map_interfaces_to_commands_def want_step_def want_interfaces_def set_interfaces_def
       interface_step_def vlan_entry_def auto_step_def dict_get_def dict_extend_def
       membership_commands_def default_port_def interface_blocks_def less_char_def less_eq_char_def
       map_to_commands_def voice_want_step_def voice_entry_def voice_token_def
       voice_assign_def match_voice_range_def digits_then_def
       span_digits_def is_digit_def map_to_commands_interface_def plain_voice_port_def
       voice_blocks_def)

section \<open>Idempotence\<close>




























end
